theory Spec2Isabelle
  imports Main
begin

section \<open>Values of the runtime\<close>

text \<open>
  A string of the program, a sequence of UTF-16 code units, is represented by the bytes
  of its generalised UTF-8 encoding: UTF-8, in which a surrogate that is not part of a
  pair is written as the three bytes \<open>ED A0..BF 80..BF\<close> (in UTF-8 proper the byte
  \<open>ED\<close> is followed by \<open>80..9F\<close>). A value of type \<open>string | null\<close> is a
  \<open>string option\<close>. A date is a number of milliseconds.
\<close>

type_synonym date = nat

text \<open>
  The conditions \<open>if (v)\<close>, \<open>!v\<close> and \<open>v || d\<close> on a \<open>string | null\<close> test
  truthiness: \<open>null\<close>, \<open>undefined\<close> and the empty string are falsy.
\<close>

definition truthy :: "string option \<Rightarrow> bool" where
  "truthy v = (case v of None \<Rightarrow> False | Some s \<Rightarrow> s \<noteq> [])"

definition or_else :: "string \<Rightarrow> string \<Rightarrow> string" where
  "or_else a b = (if a \<noteq> [] then a else b)"

text \<open>
  \<open>encodeURIComponent\<close>: on a string with a lone surrogate the builtin throws
  \<open>URIError\<close>, which is the result \<open>None\<close>; otherwise every byte of the UTF-8 encoding is
  kept when it is one of \<open>A-Z a-z 0-9 - _ . ! ~ * ' ( )\<close> and written \<open>%XX\<close> (upper-case
  hexadecimal) when it is not. The functions below take the builtin as a parameter.
\<close>

fun lone_surrogate :: "string \<Rightarrow> bool" where
  "lone_surrogate [] = False"
| "lone_surrogate [c] = False"
| "lone_surrogate (c # d # cs) =
     ((of_char c :: nat) = 0xED \<and> 0xA0 \<le> (of_char d :: nat) \<and> (of_char d :: nat) \<le> 0xBF
      \<or> lone_surrogate (d # cs))"

definition unreserved :: "char \<Rightarrow> bool" where
  "unreserved c =
     (c \<in> set ''ABCDEFGHIJKLMNOPQRSTUVWXYZabcdefghijklmnopqrstuvwxyz0123456789-_.!~*()''
      \<or> c = CHR 0x27)"

definition hex_digit :: "nat \<Rightarrow> char" where
  "hex_digit n = ''0123456789ABCDEF'' ! (n mod 16)"

definition encode_byte :: "char \<Rightarrow> string" where
  "encode_byte c =
     (if unreserved c then [c]
      else [CHR ''%'', hex_digit (of_char c div 16), hex_digit (of_char c)])"

definition encodeURIComponent :: "string \<Rightarrow> string option" where
  "encodeURIComponent s =
     (if lone_surrogate s then None else Some (concat (map encode_byte s)))"

text \<open>
  \<open>s.charAt(0).toUpperCase() + s.slice(1)\<close>, for a string that starts with an ASCII
  character: a lower-case ASCII letter becomes its capital, any other ASCII character
  is kept. (A first character outside ASCII is not modelled: it is kept as it is.)
\<close>

definition toUpperCase_ascii :: "char \<Rightarrow> char" where
  "toUpperCase_ascii c =
     (let n = (of_char c :: nat) in if 97 \<le> n \<and> n \<le> 122 then char_of (n - 32) else c)"

definition capitalize :: "string \<Rightarrow> string" where
  "capitalize s = (case s of [] \<Rightarrow> [] | c # cs \<Rightarrow> toUpperCase_ascii c # cs)"

section \<open>Data model\<close>

record reel =
  reel_id :: string
  title :: string
  url :: string
  platform :: string
  author :: string
  videoId :: "string option"
  addedAt :: date

section \<open>EmbeddedPlayer\<close>

record player_state =
  embedUrl :: "string option"
  error :: "string option"
  showFallback :: bool

text \<open>The template literals of the four platforms that have an embed endpoint.\<close>

definition youtubeEmbed :: "string \<Rightarrow> bool \<Rightarrow> string" where
  "youtubeEmbed v isPlaying =
     ''https://www.youtube.com/embed/'' @ v @ ''?autoplay=''
       @ (if isPlaying then ''1'' else ''0'') @ ''&rel=0&modestbranding=1''"

definition instagramEmbed :: "string \<Rightarrow> string" where
  "instagramEmbed v = ''https://www.instagram.com/p/'' @ v @ ''/embed/''"

definition tiktokEmbed :: "string \<Rightarrow> string" where
  "tiktokEmbed v = ''https://www.tiktok.com/embed/v2/'' @ v"

definition facebookEmbed :: "string \<Rightarrow> string" where
  "facebookEmbed encoded =
     ''https://www.facebook.com/plugins/video.php?href='' @ encoded
       @ ''&show_text=false&width=560''"

text \<open>
  \<open>generateEmbedUrl\<close>: the two flags are cleared first, then the switch on the platform
  runs. The only call of the \<open>try\<close> block that can throw is \<open>encodeURIComponent\<close>; the
  \<open>catch\<close> then sets the error and leaves \<open>embedUrl\<close> as it was. The \<open>default\<close> case
  returns before \<open>setEmbedUrl\<close>.
\<close>

definition generateEmbedUrl ::
  "(string \<Rightarrow> string option) \<Rightarrow> reel \<Rightarrow> bool \<Rightarrow> player_state \<Rightarrow> player_state" where
  "generateEmbedUrl encode reel isPlaying st =
     (let st1 = st\<lparr>error := None\<rparr>;
          st2 = st1\<lparr>showFallback := False\<rparr>
      in
      if platform reel = ''youtube'' then
        (case videoId reel of
           Some v \<Rightarrow>
             if v \<noteq> [] then st2\<lparr>embedUrl := Some (youtubeEmbed v isPlaying)\<rparr>
             else st2\<lparr>embedUrl := None\<rparr>
         | None \<Rightarrow> st2\<lparr>embedUrl := None\<rparr>)
      else if platform reel = ''instagram'' then
        (case videoId reel of
           Some v \<Rightarrow>
             if v \<noteq> [] then st2\<lparr>embedUrl := Some (instagramEmbed v)\<rparr>
             else st2\<lparr>embedUrl := None\<rparr>
         | None \<Rightarrow> st2\<lparr>embedUrl := None\<rparr>)
      else if platform reel = ''tiktok'' then
        (case videoId reel of
           Some v \<Rightarrow>
             if v \<noteq> [] then st2\<lparr>embedUrl := Some (tiktokEmbed v)\<rparr>
             else st2\<lparr>embedUrl := None\<rparr>
         | None \<Rightarrow> st2\<lparr>embedUrl := None\<rparr>)
      else if platform reel = ''facebook'' then
        (case videoId reel of
           Some v \<Rightarrow>
             if v \<noteq> [] then
               (case encode (url reel) of
                  Some encoded \<Rightarrow> st2\<lparr>embedUrl := Some (facebookEmbed encoded)\<rparr>
                | None \<Rightarrow> st2\<lparr>error := Some ''Failed to generate embed URL''\<rparr>)
             else st2\<lparr>embedUrl := None\<rparr>
         | None \<Rightarrow> st2\<lparr>embedUrl := None\<rparr>)
      else if platform reel = ''twitter'' then
        (let st3 = st2\<lparr>showFallback := True\<rparr> in st3\<lparr>embedUrl := None\<rparr>)
      else st2\<lparr>error := Some ''Unsupported platform''\<rparr>)"

definition handleIframeError :: "player_state \<Rightarrow> player_state" where
  "handleIframeError st =
     (let st1 = st\<lparr>error := Some ''Failed to load embedded content''\<rparr>
      in st1\<lparr>showFallback := True\<rparr>)"

definition handleIframeLoad :: "player_state \<Rightarrow> player_state" where
  "handleIframeLoad st = st\<lparr>error := None\<rparr>"

text \<open>
  What the component returns: the error card with its message; the fallback card with
  its heading, its paragraph and the label of its button (which opens the reel's own
  page in a new tab); or the iframe with its source and title.
\<close>

datatype view =
  ErrorCard string
  | FallbackCard string string string
  | Iframe string string

definition fallbackCard :: "reel \<Rightarrow> view" where
  "fallbackCard reel =
     FallbackCard (or_else (title reel) (author reel))
       (if platform reel = ''twitter''
        then ''Twitter videos require viewing on the original platform''
        else ''Embedded player not available for this content'')
       (''View on '' @ capitalize (platform reel))"

definition render :: "reel \<Rightarrow> player_state \<Rightarrow> view" where
  "render reel st =
     (if truthy (error st) \<and> \<not> showFallback st then
        (case error st of Some msg \<Rightarrow> ErrorCard msg | None \<Rightarrow> ErrorCard [])
      else if showFallback st \<or> \<not> truthy (embedUrl st) then fallbackCard reel
      else
        (case embedUrl st of
           Some src \<Rightarrow> Iframe src (platform reel @ '' video player'')
         | None \<Rightarrow> fallbackCard reel))"

text \<open>
  The events of the component while one reel is shown: the effect on \<open>[reel]\<close>, which
  runs after the render that follows a change of the reel, calls \<open>generateEmbedUrl\<close> with
  the play intent of that moment; the iframe's \<open>onError\<close> and \<open>onLoad\<close> handlers can
  only fire while the iframe is what is rendered.
\<close>

datatype player_event = ReelChanged bool | IframeError | IframeLoad

definition is_iframe :: "view \<Rightarrow> bool" where
  "is_iframe v = (case v of Iframe src t \<Rightarrow> True | _ \<Rightarrow> False)"

definition player_step ::
  "(string \<Rightarrow> string option) \<Rightarrow> reel \<Rightarrow> player_state \<Rightarrow> player_event \<Rightarrow> player_state" where
  "player_step encode reel st ev =
     (case ev of
        ReelChanged isPlaying \<Rightarrow> generateEmbedUrl encode reel isPlaying st
      | IframeError \<Rightarrow> if is_iframe (render reel st) then handleIframeError st else st
      | IframeLoad \<Rightarrow> if is_iframe (render reel st) then handleIframeLoad st else st)"

definition player_run ::
  "(string \<Rightarrow> string option) \<Rightarrow> reel \<Rightarrow> player_state \<Rightarrow> player_event list \<Rightarrow> player_state" where
  "player_run encode reel st evs = foldl (player_step encode reel) st evs"

section \<open>ViewPlaylist\<close>

record tag =
  tag_id :: string
  tag_name :: string
  color :: "string option"

record playlist =
  playlist_id :: string
  playlist_name :: string
  description :: "string option"
  logoUrl :: "string option"
  reels :: "reel list"
  tags :: "tag list"
  createdAt :: date
  updatedAt :: date

datatype toast = ToastError string | ToastSuccess string

text \<open>
  The state of the page: the eight \<open>useState\<close> cells that the operations below read or
  write, then the notifications shown so far (oldest first) and the collection of
  playlists held in the browser's local store. An asynchronous operation is run to its
  end on the state it was called on, with the answer of the remote store as an argument:
  while it waits the page renders the spinner alone, so no other handler runs in between.
\<close>

record view_state =
  playlist :: "playlist option"
  currentReelIndex :: int
  isPlaying :: bool
  newReelUrl :: string
  userId :: "string option"
  isLoading :: bool
  selectedTags :: "tag list"
  showTagManager :: bool
  toasts :: "toast list"
  storage :: "playlist list"

definition notify :: "toast \<Rightarrow> view_state \<Rightarrow> view_state" where
  "notify t s = s\<lparr>toasts := toasts s @ [t]\<rparr>"

text \<open>
  The helpers of \<open>lib/utils\<close> that classify a URL and extract from it are parameters of
  the operations. Each returns a string or \<open>null\<close>.
\<close>

record lib_utils =
  detectPlatform :: "string \<Rightarrow> string option"
  extractAuthor :: "string \<Rightarrow> string \<Rightarrow> string option"
  extractVideoId :: "string \<Rightarrow> string \<Rightarrow> string option"

text \<open>
  Modelled from the spec: \<open>getPlaylistsFromStorage\<close> and \<open>savePlaylistsToStorage\<close>, which
  the page imports from \<open>lib/utils\<close>. The local store holds the serialized array of all
  playlists, with read-all and write-all semantics: reading returns the whole
  collection, writing replaces it.
\<close>

definition getPlaylistsFromStorage :: "view_state \<Rightarrow> playlist list" where
  "getPlaylistsFromStorage s = storage s"

definition savePlaylistsToStorage :: "playlist list \<Rightarrow> view_state \<Rightarrow> view_state" where
  "savePlaylistsToStorage ps s = s\<lparr>storage := ps\<rparr>"

text \<open>
  The answer of the remote store to one call: \<open>Failed\<close> when the call returns an error
  (which the operation throws) or rejects, \<open>Reply\<close> with the data otherwise. The row
  that an insert into \<open>reels\<close> returns has the columns the page reads.
\<close>

datatype 'a reply = Failed | Reply 'a

record reel_row =
  row_id :: string
  row_title :: string
  row_url :: string
  row_platform :: string
  row_author :: string
  row_created_at :: date

text \<open>
  \<open>!s.trim()\<close>: the string consists of white space and line terminators only, which
  are U+0009 to U+000D, U+0020, U+00A0, U+1680, U+2000 to U+200A, U+2028, U+2029, U+202F,
  U+205F, U+3000 and U+FEFF, here in UTF-8.
\<close>

definition space3 :: "nat \<Rightarrow> nat \<Rightarrow> nat \<Rightarrow> bool" where
  "space3 a b c =
     ((a = 0xE1 \<and> b = 0x9A \<and> c = 0x80)
      \<or> (a = 0xE2 \<and> b = 0x80 \<and> (0x80 \<le> c \<and> c \<le> 0x8A \<or> c = 0xA8 \<or> c = 0xA9 \<or> c = 0xAF))
      \<or> (a = 0xE2 \<and> b = 0x81 \<and> c = 0x9F)
      \<or> (a = 0xE3 \<and> b = 0x80 \<and> c = 0x80)
      \<or> (a = 0xEF \<and> b = 0xBB \<and> c = 0xBF))"

fun blank :: "string \<Rightarrow> bool" where
  "blank [] = True"
| "blank [c] = (9 \<le> (of_char c :: nat) \<and> (of_char c :: nat) \<le> 13 \<or> (of_char c :: nat) = 32)"
| "blank [c, d] =
     (if 9 \<le> (of_char c :: nat) \<and> (of_char c :: nat) \<le> 13 \<or> (of_char c :: nat) = 32
      then blank [d]
      else (of_char c :: nat) = 0xC2 \<and> (of_char d :: nat) = 0xA0)"
| "blank (c # d # e # cs) =
     (if 9 \<le> (of_char c :: nat) \<and> (of_char c :: nat) \<le> 13 \<or> (of_char c :: nat) = 32
      then blank (d # e # cs)
      else if (of_char c :: nat) = 0xC2 \<and> (of_char d :: nat) = 0xA0 then blank (e # cs)
      else space3 (of_char c) (of_char d) (of_char e) \<and> blank cs)"

text \<open>The playback controls.\<close>

definition playPause :: "view_state \<Rightarrow> view_state" where
  "playPause s = s\<lparr>isPlaying := \<not> isPlaying s\<rparr>"

definition nextReel :: "view_state \<Rightarrow> view_state" where
  "nextReel s =
     (case playlist s of
        None \<Rightarrow> s
      | Some p \<Rightarrow>
          if length (reels p) = 0 then s
          else
            let nextIndex =
                  (if currentReelIndex s < int (length (reels p)) - 1
                   then currentReelIndex s + 1 else 0);
                s1 = s\<lparr>currentReelIndex := nextIndex\<rparr>
            in s1\<lparr>isPlaying := False\<rparr>)"

definition prevReel :: "view_state \<Rightarrow> view_state" where
  "prevReel s =
     (case playlist s of
        None \<Rightarrow> s
      | Some p \<Rightarrow>
          if length (reels p) = 0 then s
          else
            let prevIndex =
                  (if currentReelIndex s > 0
                   then currentReelIndex s - 1 else int (length (reels p)) - 1);
                s1 = s\<lparr>currentReelIndex := prevIndex\<rparr>
            in s1\<lparr>isPlaying := False\<rparr>)"

text \<open>
  \<open>addReel\<close>, with the answer of the remote insert, the identifier that \<open>uuidv4()\<close>
  yields and the value of \<open>new Date()\<close> as arguments. In remote mode a failed insert is
  thrown before any state but \<open>isLoading\<close> is written.
\<close>

definition addReel ::
  "lib_utils \<Rightarrow> reel_row reply \<Rightarrow> string \<Rightarrow> date \<Rightarrow> view_state \<Rightarrow> view_state" where
  "addReel lib answer uuid now s =
     (case playlist s of
        None \<Rightarrow> notify (ToastError ''Please enter a valid URL'') s
      | Some p \<Rightarrow>
          if blank (newReelUrl s) then notify (ToastError ''Please enter a valid URL'') s
          else
            (case detectPlatform lib (newReelUrl s) of
               None \<Rightarrow> notify (ToastError ''Unsupported platform or invalid URL'') s
             | Some pf \<Rightarrow>
                 if pf = [] then notify (ToastError ''Unsupported platform or invalid URL'') s
                 else
                 let author' =
                       (case extractAuthor lib (newReelUrl s) pf of
                          Some a \<Rightarrow> or_else a (pf @ '' user'')
                        | None \<Rightarrow> pf @ '' user'');
                     videoId' = extractVideoId lib (newReelUrl s) pf;
                     s1 = s\<lparr>isLoading := True\<rparr>
                 in
                 if truthy (userId s) then
                   (case answer of
                      Failed \<Rightarrow>
                        (notify (ToastError ''Failed to add reel'') s1)\<lparr>isLoading := False\<rparr>
                    | Reply data \<Rightarrow>
                        let newReel =
                              \<lparr>reel_id = row_id data, title = row_title data,
                               url = row_url data, platform = row_platform data,
                               author = row_author data, videoId = videoId',
                               addedAt = row_created_at data\<rparr>;
                            updatedPlaylist = p\<lparr>reels := reels p @ [newReel]\<rparr>;
                            s2 = s1\<lparr>playlist := Some updatedPlaylist\<rparr>;
                            s3 = s2\<lparr>newReelUrl := []\<rparr>;
                            s4 = notify (ToastSuccess ''Reel added to playlist'') s3
                        in s4\<lparr>isLoading := False\<rparr>)
                 else
                   (let newReel =
                          \<lparr>reel_id = uuid, title = author', url = newReelUrl s,
                           platform = pf, author = author', videoId = videoId',
                           addedAt = now\<rparr>;
                        updatedPlaylist = p\<lparr>reels := reels p @ [newReel], updatedAt := now\<rparr>;
                        s2 = s1\<lparr>playlist := Some updatedPlaylist\<rparr>;
                        playlists = getPlaylistsFromStorage s2;
                        updatedPlaylists =
                          map (\<lambda>q. if playlist_id q = playlist_id p then updatedPlaylist else q)
                            playlists;
                        s3 = savePlaylistsToStorage updatedPlaylists s2;
                        s4 = s3\<lparr>newReelUrl := []\<rparr>;
                        s5 = notify (ToastSuccess ''Reel added to playlist'') s4
                    in s5\<lparr>isLoading := False\<rparr>)))"

text \<open>
  \<open>removeReel\<close>, with the answer of the remote delete and the value of \<open>new Date()\<close>.
\<close>

definition removeReel :: "unit reply \<Rightarrow> date \<Rightarrow> string \<Rightarrow> view_state \<Rightarrow> view_state" where
  "removeReel answer now reelId s =
     (case playlist s of
        None \<Rightarrow> s
      | Some p \<Rightarrow>
          let s1 = s\<lparr>isLoading := True\<rparr> in
          if truthy (userId s) then
            (case answer of
               Failed \<Rightarrow>
                 (notify (ToastError ''Failed to remove reel'') s1)\<lparr>isLoading := False\<rparr>
             | Reply u \<Rightarrow>
                 let updatedReels = filter (\<lambda>r. reel_id r \<noteq> reelId) (reels p);
                     s2 = (if currentReelIndex s \<ge> int (length updatedReels)
                           then s1\<lparr>currentReelIndex := max 0 (int (length updatedReels) - 1)\<rparr>
                           else s1);
                     s3 = s2\<lparr>playlist := Some (p\<lparr>reels := updatedReels\<rparr>)\<rparr>;
                     s4 = notify (ToastSuccess ''Reel removed from playlist'') s3
                 in s4\<lparr>isLoading := False\<rparr>)
          else
            (let updatedReels = filter (\<lambda>r. reel_id r \<noteq> reelId) (reels p);
                 s2 = (if currentReelIndex s \<ge> int (length updatedReels)
                       then s1\<lparr>currentReelIndex := max 0 (int (length updatedReels) - 1)\<rparr>
                       else s1);
                 updatedPlaylist = p\<lparr>reels := updatedReels, updatedAt := now\<rparr>;
                 s3 = s2\<lparr>playlist := Some updatedPlaylist\<rparr>;
                 playlists = getPlaylistsFromStorage s3;
                 updatedPlaylists =
                   map (\<lambda>q. if playlist_id q = playlist_id p then updatedPlaylist else q)
                     playlists;
                 s4 = savePlaylistsToStorage updatedPlaylists s3;
                 s5 = notify (ToastSuccess ''Reel removed from playlist'') s4
             in s5\<lparr>isLoading := False\<rparr>))"

text \<open>
  \<open>updatePlaylistTags\<close>, with the answers of the delete of the tag relations and of the
  insert of the new ones; the insert is only sent when a tag is selected.
\<close>

definition updatePlaylistTags :: "unit reply \<Rightarrow> unit reply \<Rightarrow> view_state \<Rightarrow> view_state" where
  "updatePlaylistTags deleted inserted s =
     (case playlist s of
        None \<Rightarrow> s
      | Some p \<Rightarrow>
          if \<not> truthy (userId s) then s
          else
            let s1 = s\<lparr>isLoading := True\<rparr> in
            if deleted = Failed \<or> length (selectedTags s) > 0 \<and> inserted = Failed then
              (notify (ToastError ''Failed to update tags'') s1)\<lparr>isLoading := False\<rparr>
            else
              let s2 = s1\<lparr>playlist := Some (p\<lparr>tags := selectedTags s\<rparr>)\<rparr>;
                  s3 = notify (ToastSuccess ''Tags updated'') s2;
                  s4 = s3\<lparr>showTagManager := False\<rparr>
              in s4\<lparr>isLoading := False\<rparr>)"

text \<open>The number of reels of the loaded playlist, and the bound on the index.\<close>

definition reel_count :: "view_state \<Rightarrow> int" where
  "reel_count s = (case playlist s of None \<Rightarrow> 0 | Some p \<Rightarrow> int (length (reels p)))"

definition index_in_bounds :: "view_state \<Rightarrow> bool" where
  "index_in_bounds s =
     (0 \<le> currentReelIndex s \<and> currentReelIndex s \<le> max 0 (reel_count s - 1))"

section \<open>Auxiliary notions\<close>

text \<open>The state with both flags cleared, and a template applied to a truthy identifier.\<close>

definition cleared :: "player_state \<Rightarrow> player_state" where
  "cleared st = st\<lparr>error := None, showFallback := False\<rparr>"

definition target_of :: "string option \<Rightarrow> (string \<Rightarrow> string) \<Rightarrow> string option" where
  "target_of vid template =
     (case vid of Some v \<Rightarrow> if v \<noteq> [] then Some (template v) else None | None \<Rightarrow> None)"

text \<open>The state in which the player of a Twitter reel stays.\<close>

definition twitter_inv :: "player_state \<Rightarrow> bool" where
  "twitter_inv st = (embedUrl st = None \<and> error st = None \<and> showFallback st)"

text \<open>The reels that a removal by identifier keeps, and the index it leaves.\<close>

definition remaining :: "string \<Rightarrow> playlist \<Rightarrow> reel list" where
  "remaining reelId p = filter (\<lambda>r. reel_id r \<noteq> reelId) (reels p)"

definition reclamped :: "int \<Rightarrow> reel list \<Rightarrow> int" where
  "reclamped i rs = (if i \<ge> int (length rs) then max 0 (int (length rs) - 1) else i)"

text \<open>The author and the reel that \<open>addReel\<close> builds, and the requests it accepts.\<close>

definition authorOf :: "lib_utils \<Rightarrow> string \<Rightarrow> string \<Rightarrow> string" where
  "authorOf lib u pf =
     (case extractAuthor lib u pf of Some a \<Rightarrow> or_else a (pf @ '' user'')
      | None \<Rightarrow> pf @ '' user'')"

definition remoteReel :: "reel_row \<Rightarrow> string option \<Rightarrow> reel" where
  "remoteReel data vid =
     \<lparr>reel_id = row_id data, title = row_title data, url = row_url data,
      platform = row_platform data, author = row_author data, videoId = vid,
      addedAt = row_created_at data\<rparr>"

definition localReel :: "lib_utils \<Rightarrow> string \<Rightarrow> string \<Rightarrow> string \<Rightarrow> date \<Rightarrow> reel" where
  "localReel lib uuid u pf now =
     \<lparr>reel_id = uuid, title = authorOf lib u pf, url = u, platform = pf,
      author = authorOf lib u pf, videoId = extractVideoId lib u pf, addedAt = now\<rparr>"

definition accepted :: "lib_utils \<Rightarrow> view_state \<Rightarrow> playlist \<Rightarrow> string \<Rightarrow> bool" where
  "accepted lib s p pf =
     (playlist s = Some p \<and> \<not> blank (newReelUrl s)
      \<and> detectPlatform lib (newReelUrl s) = Some pf \<and> pf \<noteq> [])"

section \<open>Sample inputs\<close>

text \<open>Concrete reels, player states, playlists and page states on which the model is run.\<close>

definition sample_reel :: "string \<Rightarrow> string \<Rightarrow> string option \<Rightarrow> reel" where
  "sample_reel rid pf vid =
     \<lparr>reel_id = rid, title = ''Clip'', url = ''https://example.com/v?x=a b'', platform = pf,
      author = ''someone'', videoId = vid, addedAt = 0\<rparr>"

definition stale_player :: player_state where
  "stale_player =
     \<lparr>embedUrl = Some ''https://www.tiktok.com/embed/v2/7'',
      error = Some ''Failed to load embedded content'', showFallback = True\<rparr>"

definition fresh_player :: player_state where
  "fresh_player = \<lparr>embedUrl = None, error = None, showFallback = False\<rparr>"

definition sample_playlist :: "reel list \<Rightarrow> playlist" where
  "sample_playlist rs =
     \<lparr>playlist_id = ''p1'', playlist_name = ''Mix'', description = None, logoUrl = None,
      reels = rs, tags = [], createdAt = 1, updatedAt = 2\<rparr>"

definition sample_state :: "string option \<Rightarrow> reel list \<Rightarrow> int \<Rightarrow> view_state" where
  "sample_state uid rs i =
     \<lparr>playlist = Some (sample_playlist rs), currentReelIndex = i, isPlaying = True,
      newReelUrl = ''https://youtu.be/abc'', userId = uid, isLoading = False,
      selectedTags = [\<lparr>tag_id = ''t1'', tag_name = ''fun'', color = None\<rparr>],
      showTagManager = True, toasts = [], storage = [sample_playlist rs]\<rparr>"

definition sample_lib :: lib_utils where
  "sample_lib =
     \<lparr>detectPlatform = (\<lambda>u. if take 17 u = ''https://youtu.be/'' then Some ''youtube'' else None),
      extractAuthor = (\<lambda>u pf. None),
      extractVideoId = (\<lambda>u pf. if pf = ''youtube'' then Some (drop 17 u) else None)\<rparr>"

definition surrogate_reel :: reel where
  "surrogate_reel =
     (sample_reel ''f'' ''facebook'' (Some ''1234''))
       \<lparr>url := ''https://fb.watch/'' @ [CHR 0xED, CHR 0xA0, CHR 0x80]\<rparr>"

definition three_reels :: "reel list" where
  "three_reels =
     [sample_reel ''a'' ''youtube'' (Some ''abc''), sample_reel ''b'' ''twitter'' None,
      sample_reel ''c'' ''tiktok'' (Some ''7'')]"


section \<open>Properties of the embed resolver\<close>

lemma generate_youtube:
  "platform reel = ''youtube'' \<Longrightarrow>
   generateEmbedUrl encode reel playing st
     = (cleared st)\<lparr>embedUrl := target_of (videoId reel) (\<lambda>v. youtubeEmbed v playing)\<rparr>"
  by (simp add: generateEmbedUrl_def cleared_def target_of_def split: option.splits)

lemma generate_instagram:
  "platform reel = ''instagram'' \<Longrightarrow>
   generateEmbedUrl encode reel playing st
     = (cleared st)\<lparr>embedUrl := target_of (videoId reel) instagramEmbed\<rparr>"
  by (simp add: generateEmbedUrl_def cleared_def target_of_def split: option.splits)

lemma generate_tiktok:
  "platform reel = ''tiktok'' \<Longrightarrow>
   generateEmbedUrl encode reel playing st
     = (cleared st)\<lparr>embedUrl := target_of (videoId reel) tiktokEmbed\<rparr>"
  by (simp add: generateEmbedUrl_def cleared_def target_of_def split: option.splits)

lemma generate_facebook:
  "platform reel = ''facebook'' \<Longrightarrow>
   generateEmbedUrl encode reel playing st
     = (if truthy (videoId reel) then
          (case encode (url reel) of
             Some e \<Rightarrow> (cleared st)\<lparr>embedUrl := Some (facebookEmbed e)\<rparr>
           | None \<Rightarrow> (cleared st)\<lparr>error := Some ''Failed to generate embed URL''\<rparr>)
        else (cleared st)\<lparr>embedUrl := None\<rparr>)"
  by (simp add: generateEmbedUrl_def cleared_def truthy_def split: option.splits)

lemma generate_twitter:
  "platform reel = ''twitter'' \<Longrightarrow>
   generateEmbedUrl encode reel playing st
     = st\<lparr>error := None, showFallback := True, embedUrl := None\<rparr>"
  by (simp add: generateEmbedUrl_def)

lemma generate_other:
  "platform reel \<noteq> ''youtube'' \<Longrightarrow> platform reel \<noteq> ''instagram'' \<Longrightarrow>
   platform reel \<noteq> ''tiktok'' \<Longrightarrow> platform reel \<noteq> ''facebook'' \<Longrightarrow>
   platform reel \<noteq> ''twitter'' \<Longrightarrow>
   generateEmbedUrl encode reel playing st
     = (cleared st)\<lparr>error := Some ''Unsupported platform''\<rparr>"
  by (simp add: generateEmbedUrl_def cleared_def)


lemma generate_shape:
  obtains (target) u where
      "\<And>st. generateEmbedUrl encode reel playing st = (cleared st)\<lparr>embedUrl := u\<rparr>"
  | (failed) msg where "msg \<noteq> []"
      "\<And>st. generateEmbedUrl encode reel playing st = (cleared st)\<lparr>error := Some msg\<rparr>"
  | (twitter)
      "\<And>st. generateEmbedUrl encode reel playing st
         = st\<lparr>error := None, showFallback := True, embedUrl := None\<rparr>"
proof -
  consider "platform reel = ''youtube''" | "platform reel = ''instagram''"
    | "platform reel = ''tiktok''" | "platform reel = ''facebook''"
    | "platform reel = ''twitter''"
    | "platform reel \<noteq> ''youtube''" "platform reel \<noteq> ''instagram''"
      "platform reel \<noteq> ''tiktok''" "platform reel \<noteq> ''facebook''"
      "platform reel \<noteq> ''twitter''"
    by blast
  then show thesis
  proof cases
    case 1
    then show thesis using target generate_youtube by blast
  next
    case 2
    then show thesis using target generate_instagram by blast
  next
    case 3
    then show thesis using target generate_tiktok by blast
  next
    case 4
    show thesis
    proof (cases "truthy (videoId reel)")
      case False
      then show thesis using target[of None] generate_facebook[OF 4] by simp
    next
      case True
      show thesis
      proof (cases "encode (url reel)")
        case None
        then show thesis
          using True failed[of "''Failed to generate embed URL''"] generate_facebook[OF 4]
          by simp
      next
        case (Some e)
        then show thesis
          using True target[of "Some (facebookEmbed e)"] generate_facebook[OF 4] by simp
      qed
    qed
  next
    case 5
    then show thesis using twitter generate_twitter by blast
  next
    case 6
    then show thesis using failed[of "''Unsupported platform''"] generate_other by simp
  qed
qed

lemma render_fields:
  "embedUrl a = embedUrl b \<Longrightarrow> error a = error b \<Longrightarrow> showFallback a = showFallback b \<Longrightarrow>
   render reel a = render reel b"
  unfolding render_def by simp

text \<open>
  Claim C7. When the active reel changes, the resolver recomputes from scratch: both
  flags are cleared before the target is computed, so running \<open>generateEmbedUrl\<close> gives
  what it gives on the state with the flags cleared, and the error, the fallback flag
  and the rendered view that result are the same whatever the state left by the previous
  reel was.
\<close>

theorem resolver_recomputes_from_scratch:
  "player_step encode reel st (ReelChanged playing) = generateEmbedUrl encode reel playing st
   \<and> generateEmbedUrl encode reel playing st
     = generateEmbedUrl encode reel playing (st\<lparr>error := None, showFallback := False\<rparr>)
   \<and> error (generateEmbedUrl encode reel playing st)
       = error (generateEmbedUrl encode reel playing st')
   \<and> showFallback (generateEmbedUrl encode reel playing st)
       = showFallback (generateEmbedUrl encode reel playing st')
   \<and> render reel (generateEmbedUrl encode reel playing st)
       = render reel (generateEmbedUrl encode reel playing st')"
proof (cases rule: generate_shape[of encode reel playing])
  case (target u)
  then show ?thesis by (simp add: cleared_def render_fields player_step_def)
next
  case (failed msg)
  have "render reel ((cleared st)\<lparr>error := Some msg\<rparr>) = ErrorCard msg"
       "render reel ((cleared st')\<lparr>error := Some msg\<rparr>) = ErrorCard msg"
    using failed(1) by (simp_all add: cleared_def render_def truthy_def)
  then show ?thesis using failed(2) by (simp add: cleared_def player_step_def)
next
  case twitter
  then show ?thesis by (simp add: render_fields player_step_def)
qed


text \<open>
  On a state left with an error and the fallback flag set, a YouTube reel is rendered
  as its iframe, as on a fresh state.
\<close>

theorem resolver_recomputes_from_scratch_witness:
  "error (generateEmbedUrl encodeURIComponent (sample_reel ''a'' ''youtube'' (Some ''abc'')) True stale_player) = None
   \<and> showFallback (generateEmbedUrl encodeURIComponent (sample_reel ''a'' ''youtube'' (Some ''abc'')) True stale_player) = False
   \<and> render (sample_reel ''a'' ''youtube'' (Some ''abc''))
        (generateEmbedUrl encodeURIComponent (sample_reel ''a'' ''youtube'' (Some ''abc'')) True stale_player)
      = Iframe ''https://www.youtube.com/embed/abc?autoplay=1&rel=0&modestbranding=1'' ''youtube video player''"
proof -
  have fresh: "error (generateEmbedUrl encodeURIComponent (sample_reel ''a'' ''youtube'' (Some ''abc'')) True fresh_player) = None
    \<and> showFallback (generateEmbedUrl encodeURIComponent (sample_reel ''a'' ''youtube'' (Some ''abc'')) True fresh_player) = False
    \<and> render (sample_reel ''a'' ''youtube'' (Some ''abc''))
        (generateEmbedUrl encodeURIComponent (sample_reel ''a'' ''youtube'' (Some ''abc'')) True fresh_player)
      = Iframe ''https://www.youtube.com/embed/abc?autoplay=1&rel=0&modestbranding=1'' ''youtube video player''"
    by code_simp
  note same =
    resolver_recomputes_from_scratch[where encode = encodeURIComponent
      and reel = "sample_reel ''a'' ''youtube'' (Some ''abc'')" and playing = True
      and st = stale_player and st' = fresh_player]
  have "error (generateEmbedUrl encodeURIComponent (sample_reel ''a'' ''youtube'' (Some ''abc'')) True stale_player)
      = error (generateEmbedUrl encodeURIComponent (sample_reel ''a'' ''youtube'' (Some ''abc'')) True fresh_player)"
    and "showFallback (generateEmbedUrl encodeURIComponent (sample_reel ''a'' ''youtube'' (Some ''abc'')) True stale_player)
      = showFallback (generateEmbedUrl encodeURIComponent (sample_reel ''a'' ''youtube'' (Some ''abc'')) True fresh_player)"
    and "render (sample_reel ''a'' ''youtube'' (Some ''abc''))
        (generateEmbedUrl encodeURIComponent (sample_reel ''a'' ''youtube'' (Some ''abc'')) True stale_player)
      = render (sample_reel ''a'' ''youtube'' (Some ''abc''))
        (generateEmbedUrl encodeURIComponent (sample_reel ''a'' ''youtube'' (Some ''abc'')) True fresh_player)"
    using same by blast+
  then show ?thesis using fresh by simp
qed

lemma capitalize_twitter: "capitalize ''twitter'' = ''Twitter''"
  by code_simp

lemma twitter_render:
  "platform reel = ''twitter'' \<Longrightarrow> twitter_inv st \<Longrightarrow>
   render reel st = FallbackCard (or_else (title reel) (author reel))
      ''Twitter videos require viewing on the original platform'' ''View on Twitter''"
  by (simp add: render_def fallbackCard_def twitter_inv_def truthy_def capitalize_twitter)

lemma twitter_step:
  "platform reel = ''twitter'' \<Longrightarrow> twitter_inv st \<Longrightarrow> twitter_inv (player_step encode reel st ev)"
  by (cases ev) (simp_all add: player_step_def generate_twitter twitter_render is_iframe_def, simp add: twitter_inv_def)

lemma twitter_run:
  "platform reel = ''twitter'' \<Longrightarrow> twitter_inv st \<Longrightarrow> twitter_inv (player_run encode reel st evs)"
  unfolding player_run_def
  by (induction evs arbitrary: st) (simp_all add: twitter_step)

text \<open>
  Claim C4. For a reel whose platform is \<open>twitter\<close>, whatever its \<open>videoId\<close> and
  whatever the state before: once the effect has run, and after any further events, no
  embed target is held, no iframe is rendered, and the view is the fallback card with the
  Twitter copy and the button \<open>View on Twitter\<close> that opens the original page.
\<close>

theorem twitter_reel_always_fallback:
  assumes "platform reel = ''twitter''"
  shows "embedUrl (player_run encode reel st (ReelChanged playing # evs)) = None
    \<and> showFallback (player_run encode reel st (ReelChanged playing # evs))
    \<and> \<not> is_iframe (render reel (player_run encode reel st (ReelChanged playing # evs)))
    \<and> render reel (player_run encode reel st (ReelChanged playing # evs))
        = FallbackCard (or_else (title reel) (author reel))
            ''Twitter videos require viewing on the original platform'' ''View on Twitter''"
proof -
  let ?s1 = "generateEmbedUrl encode reel playing st"
  have run: "player_run encode reel st (ReelChanged playing # evs) = player_run encode reel ?s1 evs"
    by (simp add: player_run_def player_step_def)
  have "twitter_inv ?s1"
    using assms by (simp add: generate_twitter twitter_inv_def)
  then have inv: "twitter_inv (player_run encode reel ?s1 evs)"
    using assms by (simp add: twitter_run)
  then show ?thesis
    using run twitter_render[OF assms inv] by (simp add: twitter_inv_def is_iframe_def)
qed

text \<open>A Twitter reel that does carry an identifier, started from a stale state.\<close>

theorem twitter_reel_always_fallback_witness:
  "platform (sample_reel ''b'' ''twitter'' (Some ''1790000000000000000'')) = ''twitter''
   \<and> render (sample_reel ''b'' ''twitter'' (Some ''1790000000000000000''))
       (player_run encodeURIComponent (sample_reel ''b'' ''twitter'' (Some ''1790000000000000000''))
          stale_player [ReelChanged True, IframeLoad, IframeError, ReelChanged False])
     = FallbackCard ''Clip'' ''Twitter videos require viewing on the original platform''
         ''View on Twitter''"
proof -
  have h: "platform (sample_reel ''b'' ''twitter'' (Some ''1790000000000000000'')) = ''twitter''"
    by (simp add: sample_reel_def)
  have t: "or_else (title (sample_reel ''b'' ''twitter'' (Some ''1790000000000000000'')))
             (author (sample_reel ''b'' ''twitter'' (Some ''1790000000000000000''))) = ''Clip''"
    by (simp add: sample_reel_def or_else_def)
  show ?thesis
    using h t twitter_reel_always_fallback[OF h, of encodeURIComponent stale_player True "[IframeLoad, IframeError, ReelChanged False]"]
    by simp
qed

text \<open>
  Claim C8, amended. For every reel with a non-empty \<open>videoId\<close>, the embed target is
  the template of its platform filled with that identifier for YouTube (with the autoplay
  flag of the play intent), Instagram and TikTok; for Facebook it is the template filled
  with the URL-encoded page URL instead, provided \<open>encodeURIComponent\<close> returns, which
  it does when the URL has no lone surrogate; when it throws, the target is left as it
  was and the error \<open>Failed to generate embed URL\<close> is set.
\<close>

theorem embed_target_templates:
  assumes "videoId reel = Some v" and "v \<noteq> []"
  shows "(platform reel = ''youtube'' \<longrightarrow>
            embedUrl (generateEmbedUrl encode reel playing st)
              = Some (''https://www.youtube.com/embed/'' @ v @ ''?autoplay=''
                      @ (if playing then ''1'' else ''0'') @ ''&rel=0&modestbranding=1''))
       \<and> (platform reel = ''instagram'' \<longrightarrow>
            embedUrl (generateEmbedUrl encode reel playing st)
              = Some (''https://www.instagram.com/p/'' @ v @ ''/embed/''))
       \<and> (platform reel = ''tiktok'' \<longrightarrow>
            embedUrl (generateEmbedUrl encode reel playing st)
              = Some (''https://www.tiktok.com/embed/v2/'' @ v))
       \<and> (platform reel = ''facebook'' \<longrightarrow> encode (url reel) = Some e \<longrightarrow>
            embedUrl (generateEmbedUrl encode reel playing st)
              = Some (''https://www.facebook.com/plugins/video.php?href='' @ e
                      @ ''&show_text=false&width=560''))
       \<and> (platform reel = ''facebook'' \<longrightarrow> \<not> lone_surrogate (url reel) \<longrightarrow>
            embedUrl (generateEmbedUrl encodeURIComponent reel playing st)
              = Some (''https://www.facebook.com/plugins/video.php?href=''
                      @ concat (map encode_byte (url reel)) @ ''&show_text=false&width=560''))
       \<and> (platform reel = ''facebook'' \<longrightarrow> encode (url reel) = None \<longrightarrow>
            embedUrl (generateEmbedUrl encode reel playing st) = embedUrl st
            \<and> error (generateEmbedUrl encode reel playing st)
                = Some ''Failed to generate embed URL'')"
proof -
  have yt: "platform reel = ''youtube'' \<Longrightarrow>
      embedUrl (generateEmbedUrl encode reel playing st) = Some (youtubeEmbed v playing)"
    using assms by (simp add: generate_youtube target_of_def)
  have ig: "platform reel = ''instagram'' \<Longrightarrow>
      embedUrl (generateEmbedUrl encode reel playing st) = Some (instagramEmbed v)"
    using assms by (simp add: generate_instagram target_of_def)
  have tt: "platform reel = ''tiktok'' \<Longrightarrow>
      embedUrl (generateEmbedUrl encode reel playing st) = Some (tiktokEmbed v)"
    using assms by (simp add: generate_tiktok target_of_def)
  have fb: "platform reel = ''facebook'' \<Longrightarrow> encode (url reel) = Some e \<Longrightarrow>
      embedUrl (generateEmbedUrl encode reel playing st) = Some (facebookEmbed e)"
    using assms by (simp add: generate_facebook truthy_def)
  have fb': "platform reel = ''facebook'' \<Longrightarrow> \<not> lone_surrogate (url reel) \<Longrightarrow>
      embedUrl (generateEmbedUrl encodeURIComponent reel playing st)
        = Some (facebookEmbed (concat (map encode_byte (url reel))))"
    using assms by (simp add: generate_facebook truthy_def encodeURIComponent_def)
  have thrown: "platform reel = ''facebook'' \<Longrightarrow> encode (url reel) = None \<Longrightarrow>
      embedUrl (generateEmbedUrl encode reel playing st) = embedUrl st
      \<and> error (generateEmbedUrl encode reel playing st) = Some ''Failed to generate embed URL''"
    using assms by (simp add: generate_facebook truthy_def cleared_def)
  show ?thesis
    using yt ig tt fb fb' thrown
    unfolding youtubeEmbed_def instagramEmbed_def tiktokEmbed_def facebookEmbed_def
    by blast
qed

text \<open>A Facebook reel: the page URL is encoded into the \<open>href\<close> parameter.\<close>

theorem embed_target_templates_witness:
  "videoId (sample_reel ''f'' ''facebook'' (Some ''1234'')) = Some ''1234'' \<and> ''1234'' \<noteq> []
   \<and> \<not> lone_surrogate (url (sample_reel ''f'' ''facebook'' (Some ''1234'')))
   \<and> encodeURIComponent (url (sample_reel ''f'' ''facebook'' (Some ''1234'')))
       = Some ''https%3A%2F%2Fexample.com%2Fv%3Fx%3Da%20b''
   \<and> embedUrl (generateEmbedUrl encodeURIComponent (sample_reel ''f'' ''facebook'' (Some ''1234'')) True
        fresh_player)
     = Some ''https://www.facebook.com/plugins/video.php?href=https%3A%2F%2Fexample.com%2Fv%3Fx%3Da%20b&show_text=false&width=560''"
proof -
  have h1: "videoId (sample_reel ''f'' ''facebook'' (Some ''1234'')) = Some ''1234''"
    by (simp add: sample_reel_def)
  have h2: "''1234'' \<noteq> []" by simp
  have h3: "platform (sample_reel ''f'' ''facebook'' (Some ''1234'')) = ''facebook''"
    by (simp add: sample_reel_def)
  have h4: "encodeURIComponent (url (sample_reel ''f'' ''facebook'' (Some ''1234'')))
       = Some ''https%3A%2F%2Fexample.com%2Fv%3Fx%3Da%20b''"
    by code_simp
  have h5: "\<not> lone_surrogate (url (sample_reel ''f'' ''facebook'' (Some ''1234'')))"
    by code_simp
  show ?thesis
    using h1 h3 h4 h5 embed_target_templates[OF h1 h2, where encode = encodeURIComponent
        and e = "''https%3A%2F%2Fexample.com%2Fv%3Fx%3Da%20b''" and playing = True
        and st = fresh_player]
    by simp
qed

text \<open>
  Claim C8 as stated fails twice. For an identifier that is not \<open>null\<close> but empty, the
  guard \<open>if (reel.videoId)\<close> is false and no target is computed. For a Facebook reel
  with an identifier whose page URL holds a lone surrogate, \<open>encodeURIComponent\<close> throws:
  the error is set and no target is computed.
\<close>

theorem embed_target_empty_videoId_counterexample:
  "videoId (sample_reel ''y'' ''youtube'' (Some [])) \<noteq> None
   \<and> platform (sample_reel ''y'' ''youtube'' (Some [])) = ''youtube''
   \<and> embedUrl (generateEmbedUrl encodeURIComponent (sample_reel ''y'' ''youtube'' (Some [])) False
        fresh_player) = None
   \<and> videoId surrogate_reel = Some ''1234''
   \<and> platform surrogate_reel = ''facebook''
   \<and> encodeURIComponent (url surrogate_reel) = None
   \<and> embedUrl (generateEmbedUrl encodeURIComponent surrogate_reel False fresh_player) = None
   \<and> error (generateEmbedUrl encodeURIComponent surrogate_reel False fresh_player)
       = Some ''Failed to generate embed URL''"
  by code_simp

section \<open>Properties of the playlist view\<close>

lemma nextReel_index:
  "playlist s = Some p \<Longrightarrow> reels p \<noteq> [] \<Longrightarrow>
   currentReelIndex (nextReel s)
     = (if currentReelIndex s < int (length (reels p)) - 1 then currentReelIndex s + 1 else 0)"
  by (simp add: nextReel_def)

lemma prevReel_index:
  "playlist s = Some p \<Longrightarrow> reels p \<noteq> [] \<Longrightarrow>
   currentReelIndex (prevReel s)
     = (if currentReelIndex s > 0 then currentReelIndex s - 1 else int (length (reels p)) - 1)"
  by (simp add: prevReel_def)

lemma empty_nextReel: "reel_count s = 0 \<Longrightarrow> nextReel s = s"
  by (auto simp: nextReel_def reel_count_def split: option.splits)

lemma empty_prevReel: "reel_count s = 0 \<Longrightarrow> prevReel s = s"
  by (auto simp: prevReel_def reel_count_def split: option.splits)

text \<open>
  Claim C1. For a playlist with \<open>N > 0\<close> reels and the current index \<open>i\<close> in
  \<open>[0, N-1]\<close>, \<open>nextReel\<close> sets the index to \<open>(i+1) mod N\<close> and \<open>prevReel\<close> sets it to
  \<open>(i-1+N) mod N\<close>; with no reel (or no playlist) either leaves the state as it is.
\<close>

theorem next_previous_wrap_around:
  "(playlist s = Some p \<and> 0 < length (reels p) \<and> 0 \<le> currentReelIndex s
      \<and> currentReelIndex s \<le> int (length (reels p)) - 1 \<longrightarrow>
      currentReelIndex (nextReel s) = (currentReelIndex s + 1) mod int (length (reels p))
      \<and> currentReelIndex (prevReel s)
          = (currentReelIndex s - 1 + int (length (reels p))) mod int (length (reels p)))
   \<and> (reel_count s = 0 \<longrightarrow> nextReel s = s \<and> prevReel s = s)"
proof (intro conjI impI)
  assume a: "playlist s = Some p \<and> 0 < length (reels p) \<and> 0 \<le> currentReelIndex s
      \<and> currentReelIndex s \<le> int (length (reels p)) - 1"
  then have ne: "reels p \<noteq> []" by auto
  let ?i = "currentReelIndex s" and ?n = "int (length (reels p))"
  show "currentReelIndex (nextReel s) = (?i + 1) mod ?n"
  proof (cases "?i < ?n - 1")
    case True
    then have "(?i + 1) mod ?n = ?i + 1" using a by simp
    then show ?thesis using a ne True by (simp add: nextReel_index)
  next
    case False
    then have "?i + 1 = ?n" using a by linarith
    then have "(?i + 1) mod ?n = 0" by simp
    then show ?thesis using a ne False by (simp add: nextReel_index)
  qed
  show "currentReelIndex (prevReel s) = (?i - 1 + ?n) mod ?n"
  proof (cases "?i > 0")
    case True
    then have "(?i - 1 + ?n) mod ?n = ?i - 1" using a by simp
    then show ?thesis using a ne True by (simp add: prevReel_index)
  next
    case False
    have idx: "currentReelIndex (prevReel s) = ?n - 1"
      using a ne False by (simp add: prevReel_index)
    have "?i = 0" using a False by linarith
    then have "?i - 1 + ?n = ?n - 1" by simp
    moreover have "(?n - 1) mod ?n = ?n - 1"
      using a by (intro mod_pos_pos_trivial) auto
    ultimately show ?thesis using idx by metis
  qed
next
  assume "reel_count s = 0"
  then show "nextReel s = s" by (rule empty_nextReel)
next
  assume "reel_count s = 0"
  then show "prevReel s = s" by (rule empty_prevReel)
qed

lemma sample_playlist_of: "playlist (sample_state uid rs i) = Some (sample_playlist rs)"
  by (simp add: sample_state_def)

lemma sample_index_of: "currentReelIndex (sample_state uid rs i) = i"
  by (simp add: sample_state_def)

lemma sample_reels_of: "reels (sample_playlist rs) = rs"
  by (simp add: sample_playlist_def)

lemma length_three_reels: "length three_reels = 3"
  by (simp add: three_reels_def)

text \<open>From the last of three reels, next wraps to the first; on an empty playlist nothing moves.\<close>

theorem next_previous_wrap_around_witness:
  "playlist (sample_state None three_reels 2) = Some (sample_playlist three_reels)
   \<and> length (reels (sample_playlist three_reels)) = 3
   \<and> currentReelIndex (sample_state None three_reels 2) = 2
   \<and> currentReelIndex (nextReel (sample_state None three_reels 2)) = 0
   \<and> currentReelIndex (prevReel (sample_state None three_reels 2)) = 1
   \<and> reel_count (sample_state None [] 0) = 0
   \<and> nextReel (sample_state None [] 0) = sample_state None [] 0
   \<and> prevReel (sample_state None [] 0) = sample_state None [] 0"
proof -
  have h1: "playlist (sample_state None three_reels 2) = Some (sample_playlist three_reels)"
    by (rule sample_playlist_of)
  have h2: "length (reels (sample_playlist three_reels)) = 3"
    by (simp add: sample_reels_of length_three_reels)
  have h3: "currentReelIndex (sample_state None three_reels 2) = 2"
    by (rule sample_index_of)
  have h4: "reel_count (sample_state None [] 0) = 0"
    by (simp add: reel_count_def sample_playlist_of sample_reels_of)
  show ?thesis
    using h1 h2 h3 h4
      next_previous_wrap_around[of "sample_state None three_reels 2" "sample_playlist three_reels"]
      next_previous_wrap_around[of "sample_state None [] 0" "sample_playlist []"]
    by simp
qed

lemma removeReel_failed:
  "playlist s = Some p \<Longrightarrow> truthy (userId s) \<Longrightarrow>
   removeReel Failed now reelId s
     = s\<lparr>isLoading := False, toasts := toasts s @ [ToastError ''Failed to remove reel'']\<rparr>"
  by (simp add: removeReel_def notify_def)

lemma removeReel_remote:
  "playlist s = Some p \<Longrightarrow> truthy (userId s) \<Longrightarrow>
   removeReel (Reply u) now reelId s
     = s\<lparr>isLoading := False,
         currentReelIndex := reclamped (currentReelIndex s) (remaining reelId p),
         playlist := Some (p\<lparr>reels := remaining reelId p\<rparr>),
         toasts := toasts s @ [ToastSuccess ''Reel removed from playlist'']\<rparr>"
  by (simp add: removeReel_def notify_def remaining_def reclamped_def Let_def)

lemma removeReel_local:
  "playlist s = Some p \<Longrightarrow> \<not> truthy (userId s) \<Longrightarrow>
   removeReel answer now reelId s
     = s\<lparr>isLoading := False,
         currentReelIndex := reclamped (currentReelIndex s) (remaining reelId p),
         playlist := Some (p\<lparr>reels := remaining reelId p, updatedAt := now\<rparr>),
         storage := map (\<lambda>q. if playlist_id q = playlist_id p
                            then p\<lparr>reels := remaining reelId p, updatedAt := now\<rparr> else q)
                      (storage s),
         toasts := toasts s @ [ToastSuccess ''Reel removed from playlist'']\<rparr>"
  by (simp add: removeReel_def notify_def remaining_def reclamped_def Let_def
      getPlaylistsFromStorage_def savePlaylistsToStorage_def)

lemma removeReel_unloaded: "playlist s = None \<Longrightarrow> removeReel answer now reelId s = s"
  by (simp add: removeReel_def)

lemma removeReel_done:
  assumes "playlist s = Some p" and "truthy (userId s) \<longrightarrow> answer \<noteq> Failed"
  shows "currentReelIndex (removeReel answer now reelId s)
           = reclamped (currentReelIndex s) (remaining reelId p)"
    and "reel_count (removeReel answer now reelId s) = int (length (remaining reelId p))"
    and "toasts (removeReel answer now reelId s)
           = toasts s @ [ToastSuccess ''Reel removed from playlist'']"
proof -
  consider (remote) u where "truthy (userId s)" "answer = Reply u" | (local) "\<not> truthy (userId s)"
    using assms(2) by (cases answer) auto
  then have "currentReelIndex (removeReel answer now reelId s)
           = reclamped (currentReelIndex s) (remaining reelId p)
     \<and> reel_count (removeReel answer now reelId s) = int (length (remaining reelId p))
     \<and> toasts (removeReel answer now reelId s)
           = toasts s @ [ToastSuccess ''Reel removed from playlist'']"
  proof cases
    case remote
    then show ?thesis using assms(1) by (simp add: removeReel_remote reel_count_def)
  next
    case local
    then show ?thesis using assms(1) by (simp add: removeReel_local reel_count_def)
  qed
  then show "currentReelIndex (removeReel answer now reelId s)
           = reclamped (currentReelIndex s) (remaining reelId p)"
    and "reel_count (removeReel answer now reelId s) = int (length (remaining reelId p))"
    and "toasts (removeReel answer now reelId s)
           = toasts s @ [ToastSuccess ''Reel removed from playlist'']"
    by simp_all
qed

lemma reclamped_bounds:
  "0 \<le> i \<Longrightarrow> 0 \<le> reclamped i rs \<and> reclamped i rs \<le> max 0 (int (length rs) - 1)"
  by (auto simp: reclamped_def max_def)

lemma removeReel_in_bounds_done:
  assumes "playlist s = Some p" and "truthy (userId s) \<longrightarrow> answer \<noteq> Failed"
    and "0 \<le> currentReelIndex s"
  shows "index_in_bounds (removeReel answer now reelId s)"
  using reclamped_bounds[OF assms(3), of "remaining reelId p"]
  by (simp add: index_in_bounds_def removeReel_done[OF assms(1,2)])

lemma removeReel_in_bounds:
  assumes "index_in_bounds s"
  shows "index_in_bounds (removeReel answer now reelId s)"
proof (cases "playlist s")
  case None
  then show ?thesis using assms by (simp add: removeReel_unloaded)
next
  case (Some p)
  show ?thesis
  proof (cases "truthy (userId s) \<and> answer = Failed")
    case True
    then show ?thesis
      using assms Some by (simp add: removeReel_failed index_in_bounds_def reel_count_def)
  next
    case False
    then show ?thesis
      using assms Some removeReel_in_bounds_done[of s p answer now reelId]
      by (simp add: index_in_bounds_def)
  qed
qed


lemma remaining_distinct:
  assumes "distinct (map reel_id (reels p))" and "k < length (reels p)"
  shows "length (remaining (reel_id (reels p ! k)) p) = length (reels p) - 1"
proof -
  let ?rid = "reel_id (reels p ! k)"
  have inj: "inj_on reel_id (set (reels p))" and dist: "distinct (reels p)"
    using assms(1) by (simp_all add: distinct_map)
  have mem: "reels p ! k \<in> set (reels p)" using assms(2) by simp
  have "{r \<in> set (reels p). reel_id r = ?rid} = {reels p ! k}"
    using inj mem by (auto dest: inj_onD)
  then have one: "length (filter (\<lambda>r. reel_id r = ?rid) (reels p)) = 1"
    using dist by (simp add: distinct_length_filter Int_def conj_commute)
  have "length (filter (\<lambda>r. reel_id r = ?rid) (reels p))
          + length (filter (\<lambda>r. \<not> reel_id r = ?rid) (reels p)) = length (reels p)"
    by (rule sum_length_filter_compl)
  then show ?thesis using one by (simp add: remaining_def)
qed

text \<open>
  Claim C2. For a playlist of \<open>N > 1\<close> reels (with identifiers that identify) and the
  current index \<open>i\<close>, removing the reel at index \<open>i\<close> leaves the index at
  \<open>min(i, N-2)\<close>; and after removing any reel, the index is within the bounds of the
  shortened list. A removal is a call that is not refused by the remote store.
\<close>

theorem remove_current_reel_clamps_index:
  "(playlist s = Some p \<and> 1 < length (reels p) \<and> 0 \<le> currentReelIndex s
      \<and> currentReelIndex s < int (length (reels p)) \<and> distinct (map reel_id (reels p))
      \<and> (truthy (userId s) \<longrightarrow> answer \<noteq> Failed) \<longrightarrow>
      currentReelIndex
        (removeReel answer now (reel_id (reels p ! nat (currentReelIndex s))) s)
        = min (currentReelIndex s) (int (length (reels p)) - 2))
   \<and> (playlist s = Some p \<and> 0 \<le> currentReelIndex s
        \<and> (truthy (userId s) \<longrightarrow> answer \<noteq> Failed) \<longrightarrow>
        index_in_bounds (removeReel answer now reelId s))"
proof (intro conjI impI)
  assume a: "playlist s = Some p \<and> 1 < length (reels p) \<and> 0 \<le> currentReelIndex s
      \<and> currentReelIndex s < int (length (reels p)) \<and> distinct (map reel_id (reels p))
      \<and> (truthy (userId s) \<longrightarrow> answer \<noteq> Failed)"
  let ?i = "currentReelIndex s"
  have k: "nat ?i < length (reels p)" using a by linarith
  have len: "length (remaining (reel_id (reels p ! nat ?i)) p) = length (reels p) - 1"
    using a k by (simp add: remaining_distinct)
  have "currentReelIndex (removeReel answer now (reel_id (reels p ! nat ?i)) s)
          = reclamped ?i (remaining (reel_id (reels p ! nat ?i)) p)"
    using a by (simp add: removeReel_done(1))
  also have "\<dots> = min ?i (int (length (reels p)) - 2)"
    using a len by (auto simp: reclamped_def)
  finally show "currentReelIndex (removeReel answer now (reel_id (reels p ! nat ?i)) s)
          = min ?i (int (length (reels p)) - 2)" .
next
  assume "playlist s = Some p \<and> 0 \<le> currentReelIndex s
        \<and> (truthy (userId s) \<longrightarrow> answer \<noteq> Failed)"
  then show "index_in_bounds (removeReel answer now reelId s)"
    by (simp add: removeReel_in_bounds_done)
qed

lemma sample_userId_of: "userId (sample_state uid rs i) = uid"
  by (simp add: sample_state_def)

lemma three_reels_ids: "map reel_id three_reels = [''a'', ''b'', ''c'']"
  by (simp add: three_reels_def sample_reel_def)

text \<open>Removing the last of three reels while it is shown moves the index from 2 to 1.\<close>

theorem remove_current_reel_clamps_index_witness:
  "playlist (sample_state None three_reels 2) = Some (sample_playlist three_reels)
   \<and> distinct (map reel_id (reels (sample_playlist three_reels)))
   \<and> reel_id (reels (sample_playlist three_reels) ! 2) = ''c''
   \<and> currentReelIndex (removeReel (Reply ()) 9 ''c'' (sample_state None three_reels 2)) = 1
   \<and> index_in_bounds (removeReel (Reply ()) 9 ''a'' (sample_state None three_reels 2))"
proof -
  have h1: "playlist (sample_state None three_reels 2) = Some (sample_playlist three_reels)"
    by (rule sample_playlist_of)
  have h2: "distinct (map reel_id (reels (sample_playlist three_reels)))"
    by (simp add: sample_reels_of three_reels_ids)
  have h3: "reel_id (reels (sample_playlist three_reels) ! 2) = ''c''"
    by (simp add: sample_reels_of three_reels_def sample_reel_def)
  have h4: "currentReelIndex (sample_state None three_reels 2) = 2"
    by (rule sample_index_of)
  have h5: "\<not> truthy (userId (sample_state None three_reels 2))"
    by (simp add: sample_userId_of truthy_def)
  have h6: "length (reels (sample_playlist three_reels)) = 3"
    by (simp add: sample_reels_of length_three_reels)
  have h7: "nat 2 = 2" by simp
  show ?thesis
    using h1 h2 h3
      remove_current_reel_clamps_index[of "sample_state None three_reels 2" "sample_playlist three_reels" "Reply ()" 9 "''c''"]
      remove_current_reel_clamps_index[of "sample_state None three_reels 2" "sample_playlist three_reels" "Reply ()" 9 "''a''"]
    by (simp add: h4 h5 h6 h7)
qed

lemma addReel_unloaded:
  "playlist s = None \<Longrightarrow>
   addReel lib answer uuid now s = notify (ToastError ''Please enter a valid URL'') s"
  by (simp add: addReel_def)

lemma addReel_blank:
  "blank (newReelUrl s) \<Longrightarrow>
   addReel lib answer uuid now s = notify (ToastError ''Please enter a valid URL'') s"
  by (simp add: addReel_def split: option.splits)

lemma addReel_unclassified:
  "playlist s = Some p \<Longrightarrow> \<not> blank (newReelUrl s) \<Longrightarrow>
   \<not> truthy (detectPlatform lib (newReelUrl s)) \<Longrightarrow>
   addReel lib answer uuid now s
     = notify (ToastError ''Unsupported platform or invalid URL'') s"
  by (simp add: addReel_def truthy_def split: option.splits)

lemma addReel_failed:
  "accepted lib s p pf \<Longrightarrow> truthy (userId s) \<Longrightarrow>
   addReel lib Failed uuid now s
     = s\<lparr>isLoading := False, toasts := toasts s @ [ToastError ''Failed to add reel'']\<rparr>"
  by (simp add: addReel_def accepted_def notify_def Let_def)

lemma addReel_remote:
  "accepted lib s p pf \<Longrightarrow> truthy (userId s) \<Longrightarrow>
   addReel lib (Reply data) uuid now s
     = s\<lparr>isLoading := False,
         playlist := Some (p\<lparr>reels := reels p
                      @ [remoteReel data (extractVideoId lib (newReelUrl s) pf)]\<rparr>),
         newReelUrl := [],
         toasts := toasts s @ [ToastSuccess ''Reel added to playlist'']\<rparr>"
  by (simp add: addReel_def accepted_def notify_def Let_def remoteReel_def)

lemma addReel_local:
  "accepted lib s p pf \<Longrightarrow> \<not> truthy (userId s) \<Longrightarrow>
   addReel lib answer uuid now s
     = s\<lparr>isLoading := False,
         playlist := Some (p\<lparr>reels := reels p @ [localReel lib uuid (newReelUrl s) pf now],
                              updatedAt := now\<rparr>),
         storage := map (\<lambda>q. if playlist_id q = playlist_id p
                       then p\<lparr>reels := reels p @ [localReel lib uuid (newReelUrl s) pf now],
                              updatedAt := now\<rparr> else q) (storage s),
         newReelUrl := [],
         toasts := toasts s @ [ToastSuccess ''Reel added to playlist'']\<rparr>"
  by (simp add: addReel_def accepted_def notify_def Let_def localReel_def authorOf_def
      getPlaylistsFromStorage_def savePlaylistsToStorage_def)

lemma addReel_cases:
  obtains (rejected) msg where "addReel lib answer uuid now s = notify (ToastError msg) s"
      and "playlist s = None \<or> blank (newReelUrl s)
           \<or> \<not> truthy (detectPlatform lib (newReelUrl s))"
  | (failed) p pf where "accepted lib s p pf" "truthy (userId s)" "answer = Failed"
  | (remote) p pf data where "accepted lib s p pf" "truthy (userId s)" "answer = Reply data"
  | (local) p pf where "accepted lib s p pf" "\<not> truthy (userId s)"
proof (cases "playlist s")
  case None
  then show thesis using rejected addReel_unloaded by blast
next
  case (Some p)
  show thesis
  proof (cases "blank (newReelUrl s)")
    case True
    then show thesis using rejected addReel_blank by blast
  next
    case nb: False
    show thesis
    proof (cases "truthy (detectPlatform lib (newReelUrl s))")
      case False
      then show thesis using rejected addReel_unclassified[OF Some nb] by blast
    next
      case True
      then obtain pf where "detectPlatform lib (newReelUrl s) = Some pf" "pf \<noteq> []"
        by (auto simp: truthy_def split: option.splits)
      then have acc: "accepted lib s p pf" using Some nb by (simp add: accepted_def)
      show thesis
      proof (cases "truthy (userId s)")
        case False
        then show thesis using acc local by blast
      next
        case True
        then show thesis using acc failed remote by (cases answer) blast+
      qed
    qed
  qed
qed

lemma accepted_playlist: "accepted lib s p pf \<Longrightarrow> playlist s = Some p"
  by (simp add: accepted_def)

lemma addReel_keeps:
  "currentReelIndex (addReel lib answer uuid now s) = currentReelIndex s
   \<and> isPlaying (addReel lib answer uuid now s) = isPlaying s
   \<and> reel_count s \<le> reel_count (addReel lib answer uuid now s)"
proof (cases rule: addReel_cases[of lib answer uuid now s])
  case (rejected msg)
  then show ?thesis by (simp add: notify_def reel_count_def)
next
  case (failed p pf)
  then show ?thesis by (simp add: addReel_failed reel_count_def)
next
  case (remote p pf data)
  then show ?thesis
    using accepted_playlist[of lib s p pf] by (simp add: addReel_remote reel_count_def)
next
  case (local p pf)
  then show ?thesis
    using accepted_playlist[of lib s p pf] by (simp add: addReel_local reel_count_def)
qed

lemma addReel_in_bounds:
  "index_in_bounds s \<Longrightarrow> index_in_bounds (addReel lib answer uuid now s)"
  using addReel_keeps[of lib answer uuid now s] by (auto simp: index_in_bounds_def)




lemma updatePlaylistTags_failed:
  "playlist s = Some p \<Longrightarrow> truthy (userId s) \<Longrightarrow>
   deleted = Failed \<or> selectedTags s \<noteq> [] \<and> inserted = Failed \<Longrightarrow>
   updatePlaylistTags deleted inserted s
     = s\<lparr>isLoading := False, toasts := toasts s @ [ToastError ''Failed to update tags'']\<rparr>"
  by (auto simp: updatePlaylistTags_def notify_def)

lemma addReel_failed_plain:
  assumes "playlist s = Some p" and "truthy (userId s)"
    and "\<not> blank (newReelUrl s)" and "truthy (detectPlatform lib (newReelUrl s))"
  shows "addReel lib Failed uuid now s
     = s\<lparr>isLoading := False, toasts := toasts s @ [ToastError ''Failed to add reel'']\<rparr>"
proof -
  obtain pf where "detectPlatform lib (newReelUrl s) = Some pf" "pf \<noteq> []"
    using assms(4) by (auto simp: truthy_def split: option.splits)
  then have "accepted lib s p pf" using assms by (simp add: accepted_def)
  then show ?thesis using assms(2) by (rule addReel_failed)
qed

lemma addReel_failed_playlist:
  "truthy (userId s) \<Longrightarrow> playlist (addReel lib Failed uuid now s) = playlist s"
proof (cases rule: addReel_cases[of lib Failed uuid now s])
  case (rejected msg)
  then show ?thesis by (simp add: notify_def)
next
  case (failed p pf)
  then show ?thesis by (simp add: addReel_failed)
next
  case (remote p pf data)
  then show ?thesis by simp
next
  case (local p pf)
  assume "truthy (userId s)"
  then show ?thesis using local by simp
qed

text \<open>
  Claim C5. In remote mode, with a playlist loaded: when the call to the remote store
  fails, adding a reel, removing a reel and updating the tags each leave the state as it
  was but for the error notification that is appended (and the loading flag, which is
  lowered at the end); and the playlist held in memory only differs after an operation
  whose calls did not fail.
\<close>

theorem remote_failure_leaves_state:
  assumes "truthy (userId s)" and "playlist s = Some p"
  shows "(\<not> blank (newReelUrl s) \<and> truthy (detectPlatform lib (newReelUrl s)) \<longrightarrow>
           (addReel lib Failed uuid now s)\<lparr>isLoading := isLoading s\<rparr>
             = notify (ToastError ''Failed to add reel'') s)
       \<and> (removeReel Failed now reelId s)\<lparr>isLoading := isLoading s\<rparr>
             = notify (ToastError ''Failed to remove reel'') s
       \<and> (deleted = Failed \<or> selectedTags s \<noteq> [] \<and> inserted = Failed \<longrightarrow>
           (updatePlaylistTags deleted inserted s)\<lparr>isLoading := isLoading s\<rparr>
             = notify (ToastError ''Failed to update tags'') s)
       \<and> (playlist (addReel lib answer uuid now s) \<noteq> playlist s \<longrightarrow> answer \<noteq> Failed)
       \<and> (playlist (removeReel answer' now reelId s) \<noteq> playlist s \<longrightarrow> answer' \<noteq> Failed)
       \<and> (playlist (updatePlaylistTags deleted inserted s) \<noteq> playlist s \<longrightarrow>
           deleted \<noteq> Failed \<and> (selectedTags s \<noteq> [] \<longrightarrow> inserted \<noteq> Failed))"
proof -
  have add: "\<not> blank (newReelUrl s) \<and> truthy (detectPlatform lib (newReelUrl s)) \<longrightarrow>
           (addReel lib Failed uuid now s)\<lparr>isLoading := isLoading s\<rparr>
             = notify (ToastError ''Failed to add reel'') s"
    using assms by (simp add: addReel_failed_plain notify_def)
  have rem: "(removeReel Failed now reelId s)\<lparr>isLoading := isLoading s\<rparr>
             = notify (ToastError ''Failed to remove reel'') s"
    using assms by (simp add: removeReel_failed notify_def)
  have upd: "deleted = Failed \<or> selectedTags s \<noteq> [] \<and> inserted = Failed \<longrightarrow>
           (updatePlaylistTags deleted inserted s)\<lparr>isLoading := isLoading s\<rparr>
             = notify (ToastError ''Failed to update tags'') s"
    using assms by (simp add: updatePlaylistTags_failed notify_def)
  have add': "playlist (addReel lib answer uuid now s) \<noteq> playlist s \<longrightarrow> answer \<noteq> Failed"
    using assms(1) addReel_failed_playlist[of s lib uuid now] by auto
  have rem': "playlist (removeReel answer' now reelId s) \<noteq> playlist s \<longrightarrow> answer' \<noteq> Failed"
    using assms by (auto simp: removeReel_failed)
  have upd': "playlist (updatePlaylistTags deleted inserted s) \<noteq> playlist s \<longrightarrow>
           deleted \<noteq> Failed \<and> (selectedTags s \<noteq> [] \<longrightarrow> inserted \<noteq> Failed)"
    using assms updatePlaylistTags_failed[of s p deleted inserted] by auto
  show ?thesis using add rem upd add' rem' upd' by blast
qed

text \<open>A signed-in page on which each of the three operations is refused.\<close>

theorem remote_failure_leaves_state_witness:
  "truthy (userId (sample_state (Some ''user1'') three_reels 1))
   \<and> playlist (sample_state (Some ''user1'') three_reels 1) = Some (sample_playlist three_reels)
   \<and> \<not> blank (newReelUrl (sample_state (Some ''user1'') three_reels 1))
   \<and> truthy (detectPlatform sample_lib (newReelUrl (sample_state (Some ''user1'') three_reels 1)))
   \<and> (addReel sample_lib Failed ''u1'' 9 (sample_state (Some ''user1'') three_reels 1))
        \<lparr>isLoading := isLoading (sample_state (Some ''user1'') three_reels 1)\<rparr>
       = notify (ToastError ''Failed to add reel'') (sample_state (Some ''user1'') three_reels 1)
   \<and> (removeReel Failed 9 ''b'' (sample_state (Some ''user1'') three_reels 1))
        \<lparr>isLoading := isLoading (sample_state (Some ''user1'') three_reels 1)\<rparr>
       = notify (ToastError ''Failed to remove reel'') (sample_state (Some ''user1'') three_reels 1)
   \<and> selectedTags (sample_state (Some ''user1'') three_reels 1) \<noteq> []
   \<and> (updatePlaylistTags (Reply ()) Failed (sample_state (Some ''user1'') three_reels 1))
        \<lparr>isLoading := isLoading (sample_state (Some ''user1'') three_reels 1)\<rparr>
       = notify (ToastError ''Failed to update tags'') (sample_state (Some ''user1'') three_reels 1)"
proof -
  let ?s = "sample_state (Some ''user1'') three_reels 1"
  have h1: "truthy (userId ?s)" by (simp add: sample_userId_of truthy_def)
  have h2: "playlist ?s = Some (sample_playlist three_reels)" by (rule sample_playlist_of)
  have h3: "\<not> blank (newReelUrl ?s)" by (simp add: sample_state_def)
  have h4: "truthy (detectPlatform sample_lib (newReelUrl ?s))"
    by (simp add: sample_state_def sample_lib_def truthy_def)
  have h5: "selectedTags ?s \<noteq> []" by (simp add: sample_state_def)
  show ?thesis
    using h1 h2 h3 h4 h5
      remote_failure_leaves_state[OF h1 h2, where lib = sample_lib and uuid = "''u1''" and now = 9 and reelId = "''b''"
        and deleted = "Reply ()" and inserted = Failed]
    by blast
qed

text \<open>
  Claim C6. When the URL is empty (or blank) or \<open>detectPlatform\<close> yields no platform,
  \<open>addReel\<close> only appends an error notification, so the reel sequence is as it was; when
  the URL is accepted and the remote insert, if any, succeeds, the new reel is appended
  at the end of the sequence and success is notified.
\<close>

theorem addReel_rejects_or_appends:
  "(blank (newReelUrl s) \<or> \<not> truthy (detectPlatform lib (newReelUrl s)) \<longrightarrow>
      (\<exists>msg. addReel lib answer uuid now s = notify (ToastError msg) s)
      \<and> playlist (addReel lib answer uuid now s) = playlist s)
   \<and> (playlist s = Some p \<and> \<not> blank (newReelUrl s)
        \<and> detectPlatform lib (newReelUrl s) = Some pf \<and> pf \<noteq> []
        \<and> (truthy (userId s) \<longrightarrow> answer = Reply data) \<longrightarrow>
      (\<exists>p' r. playlist (addReel lib answer uuid now s) = Some p'
          \<and> reels p' = reels p @ [r]
          \<and> videoId r = extractVideoId lib (newReelUrl s) pf
          \<and> (if truthy (userId s)
              then reel_id r = row_id data \<and> url r = row_url data
                   \<and> platform r = row_platform data
              else reel_id r = uuid \<and> url r = newReelUrl s \<and> platform r = pf)
          \<and> toasts (addReel lib answer uuid now s)
              = toasts s @ [ToastSuccess ''Reel added to playlist'']))"
proof (intro conjI impI)
  assume bad: "blank (newReelUrl s) \<or> \<not> truthy (detectPlatform lib (newReelUrl s))"
  have "\<exists>msg. addReel lib answer uuid now s = notify (ToastError msg) s"
  proof (cases "playlist s")
    case None
    then show ?thesis using addReel_unloaded by blast
  next
    case (Some q)
    show ?thesis
    proof (cases "blank (newReelUrl s)")
      case True
      then show ?thesis using addReel_blank by blast
    next
      case False
      then show ?thesis using bad addReel_unclassified[OF Some False] by blast
    qed
  qed
  then show "\<exists>msg. addReel lib answer uuid now s = notify (ToastError msg) s"
    and "playlist (addReel lib answer uuid now s) = playlist s"
    by (auto simp: notify_def)
next
  assume ok: "playlist s = Some p \<and> \<not> blank (newReelUrl s)
        \<and> detectPlatform lib (newReelUrl s) = Some pf \<and> pf \<noteq> []
        \<and> (truthy (userId s) \<longrightarrow> answer = Reply data)"
  then have acc: "accepted lib s p pf" by (simp add: accepted_def)
  show "\<exists>p' r. playlist (addReel lib answer uuid now s) = Some p'
          \<and> reels p' = reels p @ [r]
          \<and> videoId r = extractVideoId lib (newReelUrl s) pf
          \<and> (if truthy (userId s)
              then reel_id r = row_id data \<and> url r = row_url data
                   \<and> platform r = row_platform data
              else reel_id r = uuid \<and> url r = newReelUrl s \<and> platform r = pf)
          \<and> toasts (addReel lib answer uuid now s)
              = toasts s @ [ToastSuccess ''Reel added to playlist'']"
  proof (cases "truthy (userId s)")
    case True
    then have "answer = Reply data" using ok by simp
    then show ?thesis
      using True by (simp add: addReel_remote[OF acc True] remoteReel_def)
  next
    case False
    then show ?thesis
      by (simp add: addReel_local[OF acc False] localReel_def)
  qed
qed

text \<open>A blank URL is refused; a YouTube short link is appended in local mode.\<close>

theorem addReel_rejects_or_appends_witness:
  "blank (newReelUrl ((sample_state None three_reels 1)\<lparr>newReelUrl := ''  ''\<rparr>))
   \<and> playlist (addReel sample_lib Failed ''u1'' 9
        ((sample_state None three_reels 1)\<lparr>newReelUrl := ''  ''\<rparr>))
      = Some (sample_playlist three_reels)
   \<and> playlist (sample_state None three_reels 1) = Some (sample_playlist three_reels)
   \<and> \<not> blank (newReelUrl (sample_state None three_reels 1))
   \<and> detectPlatform sample_lib (newReelUrl (sample_state None three_reels 1)) = Some ''youtube''
   \<and> \<not> truthy (userId (sample_state None three_reels 1))
   \<and> (\<exists>p' r. playlist (addReel sample_lib Failed ''u1'' 9 (sample_state None three_reels 1)) = Some p'
        \<and> reels p' = three_reels @ [r] \<and> reel_id r = ''u1'' \<and> videoId r = Some ''abc'')"
proof -
  let ?s = "sample_state None three_reels 1"
  let ?b = "?s\<lparr>newReelUrl := ''  ''\<rparr>"
  have b1: "blank (newReelUrl ?b)" by simp
  have b2: "playlist ?b = Some (sample_playlist three_reels)" by (simp add: sample_playlist_of)
  have h1: "playlist ?s = Some (sample_playlist three_reels)" by (rule sample_playlist_of)
  have h2: "\<not> blank (newReelUrl ?s)" by (simp add: sample_state_def)
  have h3: "detectPlatform sample_lib (newReelUrl ?s) = Some ''youtube''"
    by (simp add: sample_state_def sample_lib_def)
  have h4: "\<not> truthy (userId ?s)" by (simp add: sample_userId_of truthy_def)
  have h5: "extractVideoId sample_lib (newReelUrl ?s) ''youtube'' = Some ''abc''"
    by (simp add: sample_state_def sample_lib_def)
  have rejected: "playlist (addReel sample_lib Failed ''u1'' 9 ?b) = Some (sample_playlist three_reels)"
    using b1 b2 addReel_rejects_or_appends[of ?b sample_lib Failed "''u1''" 9] by simp
  have added: "\<exists>p' r. playlist (addReel sample_lib Failed ''u1'' 9 ?s) = Some p'
        \<and> reels p' = three_reels @ [r] \<and> reel_id r = ''u1'' \<and> videoId r = Some ''abc''"
    using h1 h2 h3 h4 h5
      addReel_rejects_or_appends[of ?s sample_lib Failed "''u1''" 9 "sample_playlist three_reels" "''youtube''"]
    by (simp add: sample_reels_of) blast
  show ?thesis using b1 rejected h1 h2 h3 h4 added by blast
qed

lemma nextReel_in_bounds: "index_in_bounds s \<Longrightarrow> index_in_bounds (nextReel s)"
  by (auto simp: index_in_bounds_def reel_count_def nextReel_def Let_def split: option.splits)

lemma prevReel_in_bounds: "index_in_bounds s \<Longrightarrow> index_in_bounds (prevReel s)"
  by (auto simp: index_in_bounds_def reel_count_def prevReel_def Let_def split: option.splits)

text \<open>
  Claim C9. When the current index is within \<open>[0, max(0, N-1)]\<close>, it is within that
  bound for the resulting list after next, previous, add and remove, whatever the remote
  store answers; and it is 0 when a removal leaves no reel.
\<close>

theorem index_bound_preserved:
  assumes "index_in_bounds s"
  shows "index_in_bounds (nextReel s) \<and> index_in_bounds (prevReel s)
       \<and> index_in_bounds (addReel lib answer uuid now s)
       \<and> index_in_bounds (removeReel answer' now reelId s)
       \<and> (reel_count (removeReel answer' now reelId s) = 0 \<longrightarrow>
            currentReelIndex (removeReel answer' now reelId s) = 0)"
proof -
  have rem: "index_in_bounds (removeReel answer' now reelId s)"
    using assms by (rule removeReel_in_bounds)
  then have "reel_count (removeReel answer' now reelId s) = 0 \<longrightarrow>
            currentReelIndex (removeReel answer' now reelId s) = 0"
    by (auto simp: index_in_bounds_def)
  then show ?thesis
    using assms rem by (simp add: nextReel_in_bounds prevReel_in_bounds addReel_in_bounds)
qed

text \<open>A playlist of one reel, whose removal leaves the index at 0.\<close>

theorem index_bound_preserved_witness:
  "index_in_bounds (sample_state None [sample_reel ''a'' ''youtube'' (Some ''abc'')] 0)
   \<and> index_in_bounds (nextReel (sample_state None [sample_reel ''a'' ''youtube'' (Some ''abc'')] 0))
   \<and> index_in_bounds (prevReel (sample_state None [sample_reel ''a'' ''youtube'' (Some ''abc'')] 0))
   \<and> index_in_bounds (addReel sample_lib Failed ''u1'' 9
        (sample_state None [sample_reel ''a'' ''youtube'' (Some ''abc'')] 0))
   \<and> reel_count (removeReel (Reply ()) 9 ''a''
        (sample_state None [sample_reel ''a'' ''youtube'' (Some ''abc'')] 0)) = 0
   \<and> currentReelIndex (removeReel (Reply ()) 9 ''a''
        (sample_state None [sample_reel ''a'' ''youtube'' (Some ''abc'')] 0)) = 0"
proof -
  let ?s = "sample_state None [sample_reel ''a'' ''youtube'' (Some ''abc'')] 0"
  have h: "index_in_bounds ?s"
    by (simp add: index_in_bounds_def reel_count_def sample_playlist_of sample_index_of
        sample_reels_of)
  have e: "reel_count (removeReel (Reply ()) 9 ''a'' ?s) = 0"
    by code_simp
  show ?thesis
    using h e index_bound_preserved[OF h, of sample_lib Failed "''u1''" 9 "Reply ()" "''a''"] by blast
qed




end
